theory Spec2Isabelle
  imports Complex_Main "HOL-Library.Multiset"
begin

section \<open>C arithmetic used by mandel.c\<close>

text \<open>
  The program is C. An \<open>int\<close> is a 32-bit two's complement integer, modelled as a HOL
  \<open>int\<close> with the wrap-around written out at the one place where a product can leave
  the range (\<open>255*i\<close> in \<open>iteration_to_color\<close>; C leaves the overflow undefined, the
  wrap-around is what the hardware computes). The loop counters stay below their
  bounds and cannot overflow. Integer division truncates towards zero and traps on a
  zero divisor and on \<open>INT_MIN / -1\<close>. A \<open>double\<close> is modelled as an exact \<open>real\<close>:
  rounding, infinities and NaN are outside the model.
\<close>

datatype c_error = DivisionByZero | DivisionOverflow | OutOfBounds int

definition INT_MAX :: int where
  "INT_MAX = 2147483647"

definition INT_MIN :: int where
  "INT_MIN = - 2147483648"

definition wrap32 :: "int \<Rightarrow> int" where
  "wrap32 v = (v + 2147483648) mod 4294967296 - 2147483648"

definition c_div :: "int \<Rightarrow> int \<Rightarrow> c_error + int" where
  "c_div a b =
     (if b = 0 then Inl DivisionByZero
      else if a = INT_MIN \<and> b = - 1 then Inl DivisionOverflow
      else Inr (sgn a * sgn b * (\<bar>a\<bar> div \<bar>b\<bar>)))"

definition double_to_int :: "real \<Rightarrow> int" where
  "double_to_int d = (if 0 \<le> d then \<lfloor>d\<rfloor> else \<lceil>d\<rceil>)"

section \<open>Colours\<close>

text \<open>
  Modelled from the spec: \<open>bitmap.h\<close> is not among the sources, so the macro
  \<open>MAKE_RGBA\<close> is not available. The spec calls a colour a packed RGBA value whose
  channels are \<open>(gray, gray, gray, 0)\<close>; the model keeps the four channel arguments
  unpacked.
\<close>

datatype color = RGBA int int int int

definition MAKE_RGBA :: "int \<Rightarrow> int \<Rightarrow> int \<Rightarrow> int \<Rightarrow> color" where
  "MAKE_RGBA r g b a = RGBA r g b a"

section \<open>The escape-time evaluator\<close>

text \<open>
  \<open>iteration_to_color\<close> (lines 225-229): \<open>int gray = 255*i/max\<close>, then
  \<open>MAKE_RGBA(gray,gray,gray,0)\<close>. \<open>iteration_to_gray\<close> is the local \<open>gray\<close>.
\<close>

definition iteration_to_gray :: "int \<Rightarrow> int \<Rightarrow> c_error + int" where
  "iteration_to_gray i maxv = c_div (wrap32 (255 * i)) maxv"

definition iteration_to_color :: "int \<Rightarrow> int \<Rightarrow> c_error + color" where
  "iteration_to_color i maxv =
     (case iteration_to_gray i maxv of
        Inl e \<Rightarrow> Inl e
      | Inr gray \<Rightarrow> Inr (MAKE_RGBA gray gray gray 0))"

text \<open>
  The \<open>while\<close> loop of \<open>iterations_at_point\<close> (lines 205-214). The arguments are the
  saved point \<open>x0, y0\<close>, the cap, and the loop variables \<open>x, y, iter\<close>; the value is
  \<open>iter\<close> when the loop is left.
\<close>

function escape_loop :: "real \<Rightarrow> real \<Rightarrow> int \<Rightarrow> real \<Rightarrow> real \<Rightarrow> int \<Rightarrow> int" where
  "escape_loop x0 y0 maxv x y iter =
     (if x * x + y * y \<le> 4 \<and> iter < maxv
      then escape_loop x0 y0 maxv (x * x - y * y + x0) (2 * x * y + y0) (iter + 1)
      else iter)"
  by pat_completeness auto
termination
  by (relation "measure (\<lambda>(x0, y0, maxv, x, y, iter). nat (maxv - iter))") auto

declare escape_loop.simps [simp del]

definition iterations_at_point :: "real \<Rightarrow> real \<Rightarrow> int \<Rightarrow> c_error + color" where
  "iterations_at_point x y maxv = iteration_to_color (escape_loop x y maxv x y 0) maxv"

text \<open>
  The same loop with a budget of passes: \<open>None\<close> when the budget is used up before the
  loop condition fails.
\<close>

fun escape_fuel :: "nat \<Rightarrow> real \<Rightarrow> real \<Rightarrow> int \<Rightarrow> real \<Rightarrow> real \<Rightarrow> int \<Rightarrow> int option" where
  "escape_fuel 0 x0 y0 maxv x y iter =
     (if x * x + y * y \<le> 4 \<and> iter < maxv then None else Some iter)"
| "escape_fuel (Suc n) x0 y0 maxv x y iter =
     (if x * x + y * y \<le> 4 \<and> iter < maxv
      then escape_fuel n x0 y0 maxv (x * x - y * y + x0) (2 * x * y + y0) (iter + 1)
      else Some iter)"







section \<open>The canvas\<close>








section \<open>The worker: compute_image\<close>











section \<open>The renderer: main\<close>




















section \<open>Properties of the evaluator\<close>

lemma escape_loop_continue:
  "x * x + y * y \<le> 4 \<Longrightarrow> iter < maxv \<Longrightarrow>
     escape_loop x0 y0 maxv x y iter =
       escape_loop x0 y0 maxv (x * x - y * y + x0) (2 * x * y + y0) (iter + 1)"
  by (subst escape_loop.simps) simp

lemma escape_loop_stop:
  "\<not> (x * x + y * y \<le> 4 \<and> iter < maxv) \<Longrightarrow> escape_loop x0 y0 maxv x y iter = iter"
  by (subst escape_loop.simps) auto

lemma escape_loop_bounds:
  "iter \<le> maxv \<Longrightarrow>
     iter \<le> escape_loop x0 y0 maxv x y iter \<and> escape_loop x0 y0 maxv x y iter \<le> maxv"
proof (induction x0 y0 maxv x y iter rule: escape_loop.induct)
  case (1 x0 y0 maxv x y iter)
  show ?case
  proof (cases "x * x + y * y \<le> 4 \<and> iter < maxv")
    case True
    then have "iter + 1 \<le> maxv" by simp
    with "1.IH" True
    have "iter + 1 \<le> escape_loop x0 y0 maxv (x * x - y * y + x0) (2 * x * y + y0) (iter + 1)
        \<and> escape_loop x0 y0 maxv (x * x - y * y + x0) (2 * x * y + y0) (iter + 1) \<le> maxv"
      by blast
    with True show ?thesis
      by (simp add: escape_loop_continue)
  next
    case False
    with "1.prems" show ?thesis
      by (simp add: escape_loop_stop)
  qed
qed

lemma escape_fuel_enough:
  "nat (maxv - iter) \<le> n \<Longrightarrow>
     escape_fuel n x0 y0 maxv x y iter = Some (escape_loop x0 y0 maxv x y iter)"
proof (induction n arbitrary: x y iter)
  case 0
  then have "\<not> (x * x + y * y \<le> 4 \<and> iter < maxv)"
    by simp
  then show ?case
    by (simp add: escape_loop_stop)
next
  case (Suc n)
  show ?case
  proof (cases "x * x + y * y \<le> 4 \<and> iter < maxv")
    case True
    with Suc.prems have "nat (maxv - (iter + 1)) \<le> n"
      by simp
    then have "escape_fuel n x0 y0 maxv (x * x - y * y + x0) (2 * x * y + y0) (iter + 1) =
        Some (escape_loop x0 y0 maxv (x * x - y * y + x0) (2 * x * y + y0) (iter + 1))"
      by (rule Suc.IH)
    with True show ?thesis
      by (simp add: escape_loop_continue)
  next
    case False
    then show ?thesis
      by (auto simp: escape_loop_stop)
  qed
qed



lemma escape_loop_origin:
  "iter \<le> maxv \<Longrightarrow> escape_loop 0 0 maxv 0 0 iter = maxv"
proof (induction "0::real" "0::real" maxv "0::real" "0::real" iter rule: escape_loop.induct)
  case (1 maxv iter)
  show ?case
  proof (cases "iter < maxv")
    case True
    with "1.hyps" have "escape_loop 0 0 maxv 0 0 (iter + 1) = maxv"
      by simp
    with True show ?thesis
      using escape_loop_continue [of 0 0 iter maxv 0 0] by simp
  next
    case False
    with "1.prems" show ?thesis
      by (simp add: escape_loop_stop)
  qed
qed

lemma wrap32_id: "INT_MIN \<le> v \<Longrightarrow> v \<le> INT_MAX \<Longrightarrow> wrap32 v = v"
  by (simp add: wrap32_def INT_MIN_def INT_MAX_def)

lemma gray_overflow_threshold: "INT_MAX div 255 = 8421504"
  by (simp add: INT_MAX_def)

text \<open>
  Where the product \<open>255*i\<close> stays inside the \<open>int\<close> range and the cap is positive, the
  gray level is the quotient and lies between 0 and 255.
\<close>

lemma iteration_to_gray_range:
  assumes "0 \<le> i" "i \<le> maxv" "0 < maxv" "maxv \<le> 8421504"
  shows "iteration_to_gray i maxv = Inr (255 * i div maxv)
    \<and> 0 \<le> 255 * i div maxv \<and> 255 * i div maxv \<le> 255"
proof -
  have w: "wrap32 (255 * i) = 255 * i"
    using assms by (intro wrap32_id) (auto simp: INT_MIN_def INT_MAX_def)
  have q: "255 * i div maxv \<le> 255"
  proof -
    have "255 * i div maxv \<le> 255 * maxv div maxv"
      using assms by (intro zdiv_mono1) auto
    then show ?thesis using assms by simp
  qed
  have "0 \<le> 255 * i div maxv"
    using assms by (simp add: pos_imp_zdiv_nonneg_iff)
  with q w assms show ?thesis
    by (auto simp: iteration_to_gray_def c_div_def INT_MIN_def sgn_if)
qed

lemma iterations_at_point_gray_range:
  assumes "0 < maxv" "maxv \<le> 8421504"
  shows "\<exists>g. iterations_at_point x y maxv = Inr (MAKE_RGBA g g g 0) \<and> 0 \<le> g \<and> g \<le> 255"
proof -
  have "0 \<le> escape_loop x y maxv x y 0 \<and> escape_loop x y maxv x y 0 \<le> maxv"
    using assms by (intro escape_loop_bounds) simp
  then show ?thesis
    using iteration_to_gray_range [of "escape_loop x y maxv x y 0" maxv] assms
    by (auto simp: iterations_at_point_def iteration_to_color_def)
qed

lemma iterations_at_point_negative_max:
  assumes "maxv < 0" "INT_MIN \<le> maxv"
  shows "iterations_at_point x y maxv = Inr (MAKE_RGBA 0 0 0 0)"
  using assms
  by (simp add: iterations_at_point_def iteration_to_color_def iteration_to_gray_def
      escape_loop_stop c_div_def wrap32_def INT_MIN_def)

lemma iterations_at_point_origin_small:
  assumes "0 < maxv" "maxv \<le> 8421504"
  shows "iterations_at_point 0 0 maxv = Inr (MAKE_RGBA 255 255 255 0)"
  using assms iteration_to_gray_range [of maxv maxv]
  by (simp add: iterations_at_point_def iteration_to_color_def escape_loop_origin)

section \<open>Claims about the evaluator\<close>

text \<open>
  C9. For every cap \<open>max \<ge> 0\<close> and every point, the escape-time loop of
  \<open>iterations_at_point\<close> terminates after at most \<open>max\<close> passes: a budget of \<open>max\<close> passes
  is enough for the loop to finish, and the counter it returns lies between 0 and
  \<open>max\<close>.
\<close>

theorem escape_loop_terminates_within_max:
  "0 \<le> maxv \<Longrightarrow>
     escape_fuel (nat maxv) x y maxv x y 0 = Some (escape_loop x y maxv x y 0)
     \<and> 0 \<le> escape_loop x y maxv x y 0 \<and> escape_loop x y maxv x y 0 \<le> maxv"
  using escape_fuel_enough [of maxv 0 "nat maxv" x y x y] escape_loop_bounds [of 0 maxv x y x y]
  by simp

theorem escape_loop_terminates_within_max_witness:
  "(0::int) \<le> 3 \<and> escape_fuel 3 0 0 3 0 0 0 = Some 3 \<and> escape_loop 0 0 3 0 0 0 = 3"
  using escape_loop_terminates_within_max [of 3 0 0]
  by (simp add: numeral_3_eq_3)




text \<open>
  C4. With \<open>max = 0\<close> the loop is not entered and \<open>iteration_to_color\<close> evaluates
  \<open>255*0/0\<close>: the code divides by zero at every point and yields no gray.
\<close>

theorem iterations_at_point_max_zero_divides_by_zero:
  "iterations_at_point x y 0 = Inl DivisionByZero"
  by (simp add: iterations_at_point_def iteration_to_color_def iteration_to_gray_def
      c_div_def)

text \<open>
  C5. The gray level is not in \<open>[0, 255]\<close> for every \<open>max\<close>. Once \<open>255*iter\<close> leaves the
  \<open>int\<close> range it is wrong: at the point \<open>(0, 0)\<close> with cap 10000000 the loop counts
  10000000 passes, the product wraps around to a negative value and the gray level is
  -174. With cap 0 there is no gray level at all, as the division traps.
\<close>

theorem iterations_at_point_gray_out_of_range:
  "iterations_at_point 0 0 10000000 = Inr (MAKE_RGBA (- 174) (- 174) (- 174) 0)
   \<and> iterations_at_point 1 1 0 = Inl DivisionByZero"
  by (simp add: iterations_at_point_def escape_loop_origin escape_loop_stop
      iteration_to_color_def iteration_to_gray_def c_div_def wrap32_def INT_MIN_def)

text \<open>
  C7. At the point \<open>(0, 0)\<close> the loop runs \<open>max\<close> passes for every \<open>max > 0\<close>, but the
  gray level is 255 only while \<open>255*max\<close> fits an \<open>int\<close>: with cap 8421505, the first
  value past \<open>INT_MAX / 255\<close>, the result is -254.
\<close>

theorem iterations_at_point_origin_overflow:
  "escape_loop 0 0 8421505 0 0 0 = 8421505 \<and>
   iterations_at_point 0 0 8421505 = Inr (MAKE_RGBA (- 254) (- 254) (- 254) 0)"
  by (simp add: iterations_at_point_def escape_loop_origin iteration_to_color_def
      iteration_to_gray_def c_div_def wrap32_def INT_MIN_def)

section \<open>Properties of the worker\<close>








section \<open>Properties of the loops of main\<close>






section \<open>Bands, schedules and the canvas\<close>

lemma double_to_int_of_int [simp]: "double_to_int (of_int m) = m"
  by (simp add: double_to_int_def)














section \<open>Properties of one render\<close>


lemma c_div_nonneg: "0 \<le> a \<Longrightarrow> 1 \<le> b \<Longrightarrow> c_div a b = Inr (a div b)"
  by (cases "a = 0") (auto simp: c_div_def INT_MIN_def)
















section \<open>Claims about the renderer\<close>













end
